theory Spec2Isabelle
  imports Main "HOL-Library.Sublist" "HOL-Library.AList"
begin

section \<open>Python primitives used by \<open>converters.py\<close>\<close>

text \<open>
  Strings are \<open>string\<close> (lists of \<open>char\<close>).  The only characters the code inspects are the
  ASCII path separator and the ASCII dot, and the only string operations are equality,
  slicing and the substring test \<open>in\<close>; all of these agree on UTF-8 bytes and on code points.
\<close>

text \<open>\<open>p.rfind(c)\<close> for a one-character \<open>c\<close>: the highest index holding \<open>c\<close>, or \<open>-1\<close>.\<close>

fun rfind_from :: "string \<Rightarrow> char \<Rightarrow> int \<Rightarrow> int \<Rightarrow> int" where
  "rfind_from [] c i found = found"
| "rfind_from (x # xs) c i found = rfind_from xs c (i + 1) (if x = c then i else found)"

definition rfind :: "string \<Rightarrow> char \<Rightarrow> int" where
  "rfind p c = rfind_from p c 0 (- 1)"

text \<open>
  The slice \<open>p[i:j]\<close> for indices that are not negative (the only ones \<open>splitext\<close> builds):
  out-of-range bounds are clipped, never an error.
\<close>

definition slice :: "string \<Rightarrow> int \<Rightarrow> int \<Rightarrow> string" where
  "slice p i j = drop (nat i) (take (nat j) p)"

text \<open>
  \<open>os.path.splitext\<close> of the POSIX flavour (\<open>sep = '/'\<close>, no \<open>altsep\<close>, \<open>extsep = '.'\<close>),
  following the standard library's \<open>genericpath._splitext\<close>:
  \<^verbatim>\<open>
    sepIndex = p.rfind(sep)
    dotIndex = p.rfind(extsep)
    if dotIndex > sepIndex:
        filenameIndex = sepIndex + 1
        while filenameIndex < dotIndex:
            if p[filenameIndex:filenameIndex+1] != extsep:
                return p[:dotIndex], p[dotIndex:]
            filenameIndex += 1
    return p, p[:0]
  \<close>
\<close>

function splitext_loop :: "string \<Rightarrow> int \<Rightarrow> int \<Rightarrow> string \<times> string" where
  "splitext_loop p dotIndex filenameIndex =
     (if filenameIndex < dotIndex then
        (if slice p filenameIndex (filenameIndex + 1) \<noteq> ''.''
         then (take (nat dotIndex) p, drop (nat dotIndex) p)
         else splitext_loop p dotIndex (filenameIndex + 1))
      else (p, []))"
  by pat_completeness auto
termination
  by (relation "measure (\<lambda>(p, dotIndex, filenameIndex). nat (dotIndex - filenameIndex))") auto

declare splitext_loop.simps [simp del]

definition splitext :: "string \<Rightarrow> string \<times> string" where
  "splitext p =
     (let sepIndex = rfind p CHR ''/'';
          dotIndex = rfind p CHR ''.''
      in if dotIndex > sepIndex then splitext_loop p dotIndex (sepIndex + 1) else (p, []))"

text \<open>The substring test \<open>a in b\<close> on two strings.\<close>

fun py_in :: "string \<Rightarrow> string \<Rightarrow> bool" where
  "py_in a [] = (a = [])"
| "py_in a (c # cs) = (take (length a) (c # cs) = a \<or> py_in a cs)"

section \<open>Errors\<close>

text \<open>
  The two exception classes imported from \<open>.exceptions\<close>, Python's \<open>TypeError\<close> (raised by the
  call machinery), and one constructor for whatever the I/O and geometry libraries raise.
\<close>

datatype error =
    InvalidInputTypeError string
  | TooFewRidgesError string
  | TypeError string
  | LibraryError string

section \<open>Data handled by the conversion\<close>

text \<open>
  The geometry mappings (\<open>'g\<close>), the shapely objects (\<open>'s\<close>), the attribute values (\<open>'v\<close>),
  the coordinate reference system (\<open>'c\<close>) and the density (\<open>'d\<close>) are only passed along by
  the code, so they stay type parameters.  Python dictionaries are association lists in
  insertion order.
\<close>

text \<open>A record read from or written to a fiona collection: its two keys.\<close>

record ('g, 'v) feature =
  geometry :: 'g
  properties :: "(string \<times> 'v) list"

text \<open>
  A fiona schema is a dictionary with the slot \<open>"geometry"\<close> (a type name) and the slot
  \<open>"properties"\<close> (field name to field type, ordered).
\<close>

datatype schema_value = GeometryType string | PropertyTypes "(string \<times> string) list"

type_synonym schema = "(string \<times> schema_value) list"

text \<open>What the code reads from the collection \<open>fiona.open(src, mode="r")\<close>.\<close>

record ('g, 'v, 'c) collection =
  schema :: schema
  crs :: 'c
  encoding :: string
  records :: "('g, 'v) feature list"

text \<open>The arguments of one call \<open>fiona.open(dst, mode="w", driver=..., schema=..., ...)\<close>.\<close>

record 'c open_call =
  dst_path :: string
  dst_mode :: string
  dst_driver :: string
  dst_schema :: schema
  dst_crs :: 'c
  dst_encoding :: string

text \<open>
  A \<open>Centerline\<close> object as the code uses it: \<open>mapping(centerline_obj)\<close> reads its
  geometry mapping, and \<open>centerline_obj.__dict__.items()\<close> its instance attributes.
\<close>

record ('g, 'v) centerline_obj =
  geo_interface :: 'g
  obj_dict :: "(string \<times> 'v) list"

text \<open>shapely's \<open>mapping(ob)\<close> returns the object's geometry mapping.\<close>

definition mapping :: "('g, 'v) centerline_obj \<Rightarrow> 'g" where
  "mapping ob = geo_interface ob"

text \<open>
  A driver is known to the code through \<open>GetName()\<close> and \<open>GetMetadataItem(key)\<close>, which
  gives \<open>None\<close> for an item the driver does not have.
\<close>

record driver =
  GetName :: string
  DMD_EXTENSION :: "string option"
  DMD_EXTENSIONS :: "string option"

text \<open>
  The state the program acts on: the process-wide OGR driver registry in enumeration
  order, the calls made so far to open a dataset for writing, the records handed to
  \<open>destination_file.write\<close>, and the errors handed to \<open>logging.warning\<close>.  Closing
  the two datasets when the \<open>with\<close> blocks are left is not recorded.
\<close>

record ('g, 'v, 'c) world =
  ogr_drivers :: "driver list"
  open_calls :: "'c open_call list"
  written :: "('g, 'v) feature list"
  warnings :: "error list"

text \<open>
  The collaborators outside \<open>converters.py\<close>, taken as parameters: opening the source,
  opening the destination (\<open>None\<close>: no exception), writing one record, shapely's \<open>shape\<close>,
  and the constructor of \<open>Centerline\<close> (module \<open>geometry\<close>), which either raises or gives
  the object.
\<close>

record ('g, 's, 'v, 'c, 'd) externals =
  fiona_open_r :: "string \<Rightarrow> error + ('g, 'v, 'c) collection"
  fiona_open_w :: "'c open_call \<Rightarrow> error option"
  fiona_write :: "('g, 'v) feature \<Rightarrow> error option"
  shape :: "'g \<Rightarrow> error + 's"
  Centerline :: "'s \<Rightarrow> 'd \<Rightarrow> (string \<times> 'v) list \<Rightarrow> error + ('g, 'v) centerline_obj"

section \<open>The driver resolver \<open>get_ogr_driver\<close>\<close>

text \<open>\<open>x or ""\<close>: \<open>None\<close> and the empty string are both falsy.\<close>

definition or_empty :: "string option \<Rightarrow> string" where
  "or_empty x = (case x of None \<Rightarrow> [] | Some s \<Rightarrow> (if s = [] then [] else s))"

definition GetDriverCount :: "('g, 'v, 'c) world \<Rightarrow> nat" where
  "GetDriverCount w = length (ogr_drivers w)"

definition GetDriver :: "('g, 'v, 'c) world \<Rightarrow> nat \<Rightarrow> driver" where
  "GetDriver w idx = ogr_drivers w ! idx"

definition no_driver_msg :: "string \<Rightarrow> string" where
  "no_driver_msg EXTENSION = ''No driver found for the following file extension: '' @ EXTENSION"

text \<open>
  The loop \<open>for idx in range(ogr_driver_count)\<close> with its \<open>else\<close> branch; \<open>GetDriver\<close> is
  only called below the count.
\<close>

function driver_loop :: "('g, 'v, 'c) world \<Rightarrow> string \<Rightarrow> nat \<Rightarrow> nat \<Rightarrow> error + driver" where
  "driver_loop w EXTENSION ogr_driver_count idx =
     (if idx < ogr_driver_count then
        (let drv = GetDriver w idx;
             driver_extension = or_empty (DMD_EXTENSION drv);
             driver_extensions = or_empty (DMD_EXTENSIONS drv)
         in if EXTENSION = driver_extension \<or> py_in EXTENSION driver_extensions
            then Inr drv
            else driver_loop w EXTENSION ogr_driver_count (idx + 1))
      else Inl (InvalidInputTypeError (no_driver_msg EXTENSION)))"
  by pat_completeness auto
termination
  by (relation "measure (\<lambda>(w, EXTENSION, ogr_driver_count, idx). ogr_driver_count - idx)") auto

declare driver_loop.simps [simp del]

definition file_EXTENSION :: "string \<Rightarrow> string" where
  "file_EXTENSION filepath = (let file_extension = snd (splitext filepath) in drop 1 file_extension)"

text \<open>The resolver reads the registry and returns the state as it found it.\<close>

definition get_ogr_driver ::
  "string \<Rightarrow> ('g, 'v, 'c) world \<Rightarrow> (error + driver) \<times> ('g, 'v, 'c) world" where
  "get_ogr_driver filepath w =
     (let EXTENSION = file_EXTENSION filepath;
          ogr_driver_count = GetDriverCount w
      in (driver_loop w EXTENSION ogr_driver_count 0, w))"

section \<open>The conversion \<open>create_centerlines\<close>\<close>

text \<open>\<open>d.update(other)\<close>: a key already present keeps its place, a new key goes last.\<close>

definition dict_update :: "('k \<times> 'a) list \<Rightarrow> ('k \<times> 'a) list \<Rightarrow> ('k \<times> 'a) list" where
  "dict_update d other = fold (\<lambda>(k, v). AList.update k v) other d"

text \<open>
  The call \<open>Centerline(input_geom=..., interpolation_dist=..., **attributes)\<close>: Python
  raises \<open>TypeError\<close> at the first key of \<open>attributes\<close> that repeats one of the two
  keywords written out in the call, before the constructor runs.  The error carries that
  key.
\<close>

definition explicit_keyword :: "string \<Rightarrow> bool" where
  "explicit_keyword k = (k = ''input_geom'' \<or> k = ''interpolation_dist'')"

definition call_Centerline ::
  "('g, 's, 'v, 'c, 'd) externals \<Rightarrow> 's \<Rightarrow> 'd \<Rightarrow> (string \<times> 'v) list
     \<Rightarrow> error + ('g, 'v) centerline_obj" where
  "call_Centerline ext input_geom density attributes =
     (case find explicit_keyword (map fst attributes) of
        Some k \<Rightarrow> Inl (TypeError k)
      | None \<Rightarrow> Centerline ext input_geom density attributes)"

text \<open>\<open>except (InvalidInputTypeError, TooFewRidgesError)\<close>.\<close>

fun caught :: "error \<Rightarrow> bool" where
  "caught (InvalidInputTypeError m) = True"
| "caught (TooFewRidgesError m) = True"
| "caught (TypeError m) = False"
| "caught (LibraryError m) = False"

text \<open>The dictionary \<open>centerline_dict\<close> built for a constructed object.\<close>

definition centerline_dict ::
  "('g, 'v) centerline_obj \<Rightarrow> (string \<times> 'v) list \<Rightarrow> ('g, 'v) feature" where
  "centerline_dict ob attributes =
     \<lparr> geometry = mapping ob,
       properties = filter (\<lambda>(k, v). k \<in> set (map fst attributes)) (obj_dict ob) \<rparr>"

text \<open>
  The body of \<open>for record in source_file\<close>.  \<open>Inr ()\<close> is reaching the end of the body or
  \<open>continue\<close>; \<open>Inl e\<close> is an exception leaving the loop.
\<close>

definition process_record ::
  "('g, 's, 'v, 'c, 'd) externals \<Rightarrow> 'd \<Rightarrow> ('g, 'v) feature \<Rightarrow> ('g, 'v, 'c) world
     \<Rightarrow> (error + unit) \<times> ('g, 'v, 'c) world" where
  "process_record ext density rec w =
     (let geom = geometry rec in
      case shape ext geom of
        Inl e \<Rightarrow> (Inl e, w)
      | Inr input_geom \<Rightarrow>
          (let attributes = properties rec in
           case call_Centerline ext input_geom density attributes of
             Inl err \<Rightarrow>
               (if caught err then (Inr (), w\<lparr>warnings := warnings w @ [err]\<rparr>)
                else (Inl err, w))
           | Inr ob \<Rightarrow>
               (let cd = centerline_dict ob attributes in
                case fiona_write ext cd of
                  Some e \<Rightarrow> (Inl e, w)
                | None \<Rightarrow> (Inr (), w\<lparr>written := written w @ [cd]\<rparr>))))"

text \<open>
  The loop \<open>for record in source_file\<close>: the records in the order the collection yields
  them, an exception of the body ending the loop.
\<close>

fun records_loop ::
  "('g, 's, 'v, 'c, 'd) externals \<Rightarrow> 'd \<Rightarrow> ('g, 'v) feature list \<Rightarrow> ('g, 'v, 'c) world
     \<Rightarrow> (error + unit) \<times> ('g, 'v, 'c) world" where
  "records_loop ext density [] w = (Inr (), w)"
| "records_loop ext density (rec # rest) w =
     (case process_record ext density rec w of
        (Inl e, w') \<Rightarrow> (Inl e, w')
      | (Inr u, w') \<Rightarrow> records_loop ext density rest w')"

text \<open>
  The command.  The source is opened first; the schema is copied and its \<open>"geometry"\<close>
  key updated; the driver is resolved; only then is the destination opened for writing,
  and the loop runs.  An exception of any step ends the run with the state reached so far;
  \<open>Inr ()\<close> is \<open>return None\<close>.
\<close>

definition create_centerlines ::
  "('g, 's, 'v, 'c, 'd) externals \<Rightarrow> string \<Rightarrow> string \<Rightarrow> 'd \<Rightarrow> ('g, 'v, 'c) world
     \<Rightarrow> (error + unit) \<times> ('g, 'v, 'c) world" where
  "create_centerlines ext src dst density w =
     (case fiona_open_r ext src of
        Inl e \<Rightarrow> (Inl e, w)
      | Inr source_file \<Rightarrow>
          (let schema' = dict_update (schema source_file)
                           [(''geometry'', GeometryType ''MultiLineString'')]
           in case get_ogr_driver dst w of
                (Inl e, w1) \<Rightarrow> (Inl e, w1)
              | (Inr drv, w1) \<Rightarrow>
                  (let call = \<lparr> dst_path = dst, dst_mode = ''w'', dst_driver = GetName drv,
                                dst_schema = schema', dst_crs = crs source_file,
                                dst_encoding = encoding source_file \<rparr>;
                       w2 = w1\<lparr>open_calls := open_calls w1 @ [call]\<rparr>
                   in case fiona_open_w ext call of
                        Some e \<Rightarrow> (Inl e, w2)
                      | None \<Rightarrow> records_loop ext density (records source_file) w2)))"

section \<open>Notions of the specification\<close>

text \<open>
  The specification's wording of the test made on one driver: the extension equals the
  canonical-extension field, or occurs as a contiguous substring of the
  alternate-extensions field, a missing field counting as the empty string.
\<close>

definition spec_matches :: "string \<Rightarrow> driver \<Rightarrow> bool" where
  "spec_matches ext drv =
     (ext = (case DMD_EXTENSION drv of None \<Rightarrow> [] | Some s \<Rightarrow> s)
      \<or> sublist ext (case DMD_EXTENSIONS drv of None \<Rightarrow> [] | Some s \<Rightarrow> s))"

text \<open>
  The record the loop body hands to the destination for one feature, if it gets that far:
  the feature's geometry decodes and the constructor call returns an object.
\<close>

definition output_of ::
  "('g, 's, 'v, 'c, 'd) externals \<Rightarrow> 'd \<Rightarrow> ('g, 'v) feature \<Rightarrow> ('g, 'v) feature option" where
  "output_of ext density rec =
     (case shape ext (geometry rec) of
        Inl e \<Rightarrow> None
      | Inr input_geom \<Rightarrow>
          (case call_Centerline ext input_geom density (properties rec) of
             Inl e \<Rightarrow> None
           | Inr ob \<Rightarrow> Some (centerline_dict ob (properties rec))))"

text \<open>
  The arguments with which the destination is to be opened: the destination path, write
  mode, the resolved driver's name, the source schema with its geometry slot set to
  \<open>MultiLineString\<close>, and the source's coordinate reference system and encoding as
  they are.
\<close>

definition the_open_call :: "string \<Rightarrow> driver \<Rightarrow> ('g, 'v, 'c) collection \<Rightarrow> 'c open_call" where
  "the_open_call dst drv source_file =
     \<lparr> dst_path = dst, dst_mode = ''w'', dst_driver = GetName drv,
       dst_schema = AList.update ''geometry'' (GeometryType ''MultiLineString'')
                             (schema source_file),
       dst_crs = crs source_file, dst_encoding = encoding source_file \<rparr>"

section \<open>Example data\<close>

definition Memory_driver :: driver where
  "Memory_driver = \<lparr> GetName = ''Memory'', DMD_EXTENSION = None, DMD_EXTENSIONS = None \<rparr>"

definition Shapefile_driver :: driver where
  "Shapefile_driver =
     \<lparr> GetName = ''ESRI Shapefile'', DMD_EXTENSION = Some ''shp'',
       DMD_EXTENSIONS = Some ''shp dbf shz shp.zip'' \<rparr>"

definition GeoJSON_driver :: driver where
  "GeoJSON_driver =
     \<lparr> GetName = ''GeoJSON'', DMD_EXTENSION = Some ''json'',
       DMD_EXTENSIONS = Some ''json geojson'' \<rparr>"

text \<open>A state with three registered drivers; one without extension metadata comes last.\<close>

definition example_world :: "(string, int, string) world" where
  "example_world =
     \<lparr> ogr_drivers = [Shapefile_driver, GeoJSON_driver, Memory_driver],
       open_calls = [], written = [], warnings = [] \<rparr>"

text \<open>The same registry with the driver without metadata first.\<close>

definition example_world' :: "(string, int, string) world" where
  "example_world' = example_world\<lparr>ogr_drivers := [Memory_driver, Shapefile_driver, GeoJSON_driver]\<rparr>"

text \<open>
  A source of three features, the second one a point; a \<open>Centerline\<close> constructor that
  accepts geometries named \<open>Polygon ...\<close>, keeps two attributes of its own and republishes
  the ones it was given; an I/O layer that never fails on \<open>in.shp\<close>.
\<close>

definition example_source :: "(string, int, string) collection" where
  "example_source =
     \<lparr> schema = [(''properties'', PropertyTypes [(''id'', ''int''), (''name'', ''str'')]),
                 (''geometry'', GeometryType ''Polygon'')],
       crs = ''EPSG:4326'',
       encoding = ''utf-8'',
       records =
         [\<lparr> geometry = ''Polygon A'', properties = [(''id'', 1), (''name'', 10)] \<rparr>,
          \<lparr> geometry = ''Point B'', properties = [(''id'', 2), (''name'', 20)] \<rparr>,
          \<lparr> geometry = ''Polygon C'', properties = [(''id'', 3), (''name'', 30)] \<rparr>] \<rparr>"

definition example_Centerline ::
  "string \<Rightarrow> nat \<Rightarrow> (string \<times> int) list \<Rightarrow> error + (string, int) centerline_obj" where
  "example_Centerline input_geom interpolation_dist attributes =
     (if take 7 input_geom = ''Polygon''
      then Inr \<lparr> geo_interface = ''MultiLineString of '' @ input_geom,
                 obj_dict = [(''_input_geom'', 0), (''_interpolation_dist'', int interpolation_dist)]
                            @ attributes \<rparr>
      else Inl (InvalidInputTypeError ''Input geometry must be a Polygon or MultiPolygon''))"

definition example_ext :: "(string, string, int, string, nat) externals" where
  "example_ext =
     \<lparr> fiona_open_r = (\<lambda>p. if p = ''in.shp'' then Inr example_source
                           else Inl (LibraryError ''No such file'')),
       fiona_open_w = (\<lambda>c. None),
       fiona_write = (\<lambda>r. None),
       shape = (\<lambda>g. Inr g),
       Centerline = example_Centerline \<rparr>"

definition colliding_record :: "(string, int) feature" where
  "colliding_record =
     \<lparr> geometry = ''Polygon D'', properties = [(''id'', 4), (''interpolation_dist'', 7)] \<rparr>"

definition example_record :: "(string, int) feature" where
  "example_record = \<lparr> geometry = ''Polygon A'', properties = [(''id'', 1), (''name'', 10)] \<rparr>"

definition example_point :: "(string, int) feature" where
  "example_point = \<lparr> geometry = ''Point B'', properties = [(''id'', 2), (''name'', 20)] \<rparr>"

definition example_obj :: "(string, int) centerline_obj" where
  "example_obj =
     \<lparr> geo_interface = ''MultiLineString of Polygon A'',
       obj_dict = [(''_input_geom'', 0), (''_interpolation_dist'', 1), (''id'', 1), (''name'', 10)] \<rparr>"

definition example_done :: "(string, int, string) world" where
  "example_done =
     example_world
       \<lparr> open_calls :=
           [\<lparr> dst_path = ''out.geojson'', dst_mode = ''w'', dst_driver = ''GeoJSON'',
              dst_schema = [(''properties'', PropertyTypes [(''id'', ''int''), (''name'', ''str'')]),
                            (''geometry'', GeometryType ''MultiLineString'')],
              dst_crs = ''EPSG:4326'', dst_encoding = ''utf-8'' \<rparr>],
         written :=
           [\<lparr> geometry = ''MultiLineString of Polygon A'',
              properties = [(''id'', 1), (''name'', 10)] \<rparr>,
            \<lparr> geometry = ''MultiLineString of Polygon C'',
              properties = [(''id'', 3), (''name'', 30)] \<rparr>],
         warnings := [InvalidInputTypeError ''Input geometry must be a Polygon or MultiPolygon''] \<rparr>"

section \<open>The resolver as a search\<close>

lemma py_in_sublist: "py_in a b = sublist a b"
proof (induction b)
  case Nil show ?case by simp
next
  case (Cons c cs)
  have "prefix a (c # cs) = (take (length a) (c # cs) = a)"
    by (metis prefix_def append_eq_conv_conj append_take_drop_id)
  then show ?case using Cons by (simp add: sublist_Cons_right)
qed

lemma or_empty_case: "or_empty x = (case x of None \<Rightarrow> [] | Some s \<Rightarrow> s)"
  by (simp add: or_empty_def split: option.splits)

lemma loop_test_spec_matches:
  "(EXTENSION = or_empty (DMD_EXTENSION drv) \<or> py_in EXTENSION (or_empty (DMD_EXTENSIONS drv)))
     = spec_matches EXTENSION drv"
  by (simp add: spec_matches_def py_in_sublist or_empty_case)

lemma driver_loop_find:
  "idx \<le> length (ogr_drivers w) \<Longrightarrow>
   driver_loop w EXTENSION (length (ogr_drivers w)) idx =
     (case find (spec_matches EXTENSION) (drop idx (ogr_drivers w)) of
        None \<Rightarrow> Inl (InvalidInputTypeError (no_driver_msg EXTENSION))
      | Some drv \<Rightarrow> Inr drv)"
proof (induction w EXTENSION "length (ogr_drivers w)" idx rule: driver_loop.induct)
  case (1 w EXTENSION idx)
  let ?ds = "ogr_drivers w"
  show ?case
  proof (cases "idx < length ?ds")
    case False
    then show ?thesis by (subst driver_loop.simps) simp
  next
    case True
    then have d: "drop idx ?ds = ?ds ! idx # drop (Suc idx) ?ds"
      by (simp add: Cons_nth_drop_Suc)
    show ?thesis
    proof (cases "spec_matches EXTENSION (?ds ! idx)")
      case True
      with \<open>idx < length ?ds\<close> d show ?thesis
        by (subst driver_loop.simps) (simp add: GetDriver_def loop_test_spec_matches)
    next
      case False
      with True have "driver_loop w EXTENSION (length ?ds) idx
            = driver_loop w EXTENSION (length ?ds) (idx + 1)"
        by (subst driver_loop.simps) (simp add: GetDriver_def loop_test_spec_matches)
      also have "\<dots> = (case find (spec_matches EXTENSION) (drop (idx + 1) ?ds) of
        None \<Rightarrow> Inl (InvalidInputTypeError (no_driver_msg EXTENSION))
      | Some drv \<Rightarrow> Inr drv)"
        using "1.hyps"[OF True refl refl refl] False True
        by (simp add: GetDriver_def loop_test_spec_matches)
      finally show ?thesis using d False by simp
    qed
  qed
qed

lemma get_ogr_driver_find:
  "get_ogr_driver filepath w =
     (case find (spec_matches (file_EXTENSION filepath)) (ogr_drivers w) of
        None \<Rightarrow> Inl (InvalidInputTypeError (no_driver_msg (file_EXTENSION filepath)))
      | Some drv \<Rightarrow> Inr drv, w)"
  using driver_loop_find[of 0 w "file_EXTENSION filepath"]
  by (simp add: get_ogr_driver_def GetDriverCount_def)

section \<open>Claims about the driver resolver\<close>

text \<open>The comparison keeps the case of the extension as given.\<close>

lemma example_case_sensitive:
  "get_ogr_driver ''out.SHP'' example_world =
     (Inl (InvalidInputTypeError ''No driver found for the following file extension: SHP''),
      example_world)"
  by code_simp

text \<open>
  C5.  The resolver returns a driver exactly when that driver is the first one, in the
  registry's enumeration order, that matches in the specification's sense: the extension
  (the part of \<open>splitext\<close>'s result after its first character, compared as it is) equals
  the canonical-extension item or is a substring of the alternate-extensions item, a
  missing item counting as the empty string.
\<close>

theorem C5_first_matching_driver:
  "(\<forall>drv. get_ogr_driver filepath w = (Inr drv, w) \<longleftrightarrow>
       (\<exists>i < length (ogr_drivers w). ogr_drivers w ! i = drv
           \<and> spec_matches (file_EXTENSION filepath) drv
           \<and> (\<forall>j < i. \<not> spec_matches (file_EXTENSION filepath) (ogr_drivers w ! j))))
   \<and> file_EXTENSION filepath = drop 1 (snd (splitext filepath))"
proof -
  have "get_ogr_driver filepath w = (Inr drv, w) \<longleftrightarrow>
       (\<exists>i < length (ogr_drivers w). ogr_drivers w ! i = drv
           \<and> spec_matches (file_EXTENSION filepath) drv
           \<and> (\<forall>j < i. \<not> spec_matches (file_EXTENSION filepath) (ogr_drivers w ! j)))" for drv
  proof (cases "find (spec_matches (file_EXTENSION filepath)) (ogr_drivers w)")
    case None
    have l: "get_ogr_driver filepath w \<noteq> (Inr drv, w)"
      using None by (simp add: get_ogr_driver_find)
    have "\<not> spec_matches (file_EXTENSION filepath) (ogr_drivers w ! i)"
      if "i < length (ogr_drivers w)" for i
      using None that by (simp add: find_None_iff)
    with l show ?thesis by blast
  next
    case (Some d)
    have l: "get_ogr_driver filepath w = (Inr drv, w) \<longleftrightarrow> d = drv"
      using Some by (simp add: get_ogr_driver_find)
    from Some obtain i where i: "i < length (ogr_drivers w)" "ogr_drivers w ! i = d"
      "spec_matches (file_EXTENSION filepath) d"
      "\<forall>j<i. \<not> spec_matches (file_EXTENSION filepath) (ogr_drivers w ! j)"
      unfolding find_Some_iff by blast
    show ?thesis
    proof
      assume "get_ogr_driver filepath w = (Inr drv, w)"
      with l i show "\<exists>i < length (ogr_drivers w). ogr_drivers w ! i = drv
           \<and> spec_matches (file_EXTENSION filepath) drv
           \<and> (\<forall>j < i. \<not> spec_matches (file_EXTENSION filepath) (ogr_drivers w ! j))"
        by blast
    next
      assume "\<exists>i < length (ogr_drivers w). ogr_drivers w ! i = drv
           \<and> spec_matches (file_EXTENSION filepath) drv
           \<and> (\<forall>j < i. \<not> spec_matches (file_EXTENSION filepath) (ogr_drivers w ! j))"
      then obtain k where k: "k < length (ogr_drivers w)" "ogr_drivers w ! k = drv"
        "spec_matches (file_EXTENSION filepath) drv"
        "\<forall>j<k. \<not> spec_matches (file_EXTENSION filepath) (ogr_drivers w ! j)"
        by blast
      have "\<not> k < i" using i(4) k(2,3) by blast
      moreover have "\<not> i < k" using k(4) i(2,3) by blast
      ultimately have "k = i" by simp
      with i k l show "get_ogr_driver filepath w = (Inr drv, w)" by simp
    qed
  qed
  then show ?thesis by (simp add: file_EXTENSION_def)
qed

theorem C5_first_matching_driver_witness:
  "get_ogr_driver ''out.js'' example_world = (Inr GeoJSON_driver, example_world)"
proof -
  have ext: "file_EXTENSION ''out.js'' = ''js''" by code_simp
  have ds: "ogr_drivers example_world = [Shapefile_driver, GeoJSON_driver, Memory_driver]"
    by (simp add: example_world_def)
  have yes: "spec_matches ''js'' GeoJSON_driver" by code_simp
  have no: "\<not> spec_matches ''js'' Shapefile_driver" by code_simp
  have "\<exists>i < length (ogr_drivers example_world). ogr_drivers example_world ! i = GeoJSON_driver
           \<and> spec_matches (file_EXTENSION ''out.js'') GeoJSON_driver
           \<and> (\<forall>j < i. \<not> spec_matches (file_EXTENSION ''out.js'') (ogr_drivers example_world ! j))"
    using yes no by (intro exI[of _ 1]) (simp add: ext ds)
  then show ?thesis
    using C5_first_matching_driver[of "''out.js''" example_world] by blast
qed

text \<open>
  C8.  The resolver is a lookup: it hands back the state it was given, so a second call
  with the same path on the state the first call left returns the same result, and leaves
  the same state again.
\<close>

theorem C8_resolver_deterministic:
  "get_ogr_driver filepath w = (r, w') \<Longrightarrow> w' = w \<and> get_ogr_driver filepath w' = (r, w')"
  by (auto simp: get_ogr_driver_def Let_def)

theorem C8_resolver_deterministic_witness:
  "get_ogr_driver ''out.shp'' example_world = (Inr Shapefile_driver, example_world)
   \<and> get_ogr_driver ''out.shp'' (snd (get_ogr_driver ''out.shp'' example_world))
       = (Inr Shapefile_driver, example_world)"
proof -
  have first: "get_ogr_driver ''out.shp'' example_world = (Inr Shapefile_driver, example_world)"
    by code_simp
  from C8_resolver_deterministic[OF first]
  have again: "get_ogr_driver ''out.shp'' example_world = (Inr Shapefile_driver, example_world)"
    by (rule conjunct2)
  from first again show ?thesis by simp
qed

subsection \<open>Paths without an extension\<close>

lemma rfind_from_absent: "c \<notin> set xs \<Longrightarrow> rfind_from xs c i found = found"
  by (induction xs arbitrary: i found) auto

lemma rfind_from_append:
  "rfind_from (xs @ ys) c i found = rfind_from ys c (i + int (length xs)) (rfind_from xs c i found)"
  by (induction xs arbitrary: i found) (auto simp: algebra_simps)

lemma rfind_from_lower: "- 1 \<le> found \<Longrightarrow> 0 \<le> i \<Longrightarrow> - 1 \<le> rfind_from xs c i found"
  by (induction xs arbitrary: i found) auto

lemma rfind_lower: "- 1 \<le> rfind p c"
  by (simp add: rfind_def rfind_from_lower)

lemma rfind_absent: "c \<notin> set p \<Longrightarrow> rfind p c = - 1"
  by (simp add: rfind_def rfind_from_absent)

lemma rfind_last: "rfind (p @ [c]) c = int (length p)"
  by (simp add: rfind_def rfind_from_append)

lemma splitext_loop_snd:
  "snd (splitext_loop p dotIndex filenameIndex) = [] \<or>
   snd (splitext_loop p dotIndex filenameIndex) = drop (nat dotIndex) p"
proof (induction p dotIndex filenameIndex rule: splitext_loop.induct)
  case (1 p dotIndex filenameIndex)
  then show ?case
    by (subst (1 2) splitext_loop.simps) auto
qed

lemma splitext_snd:
  "snd (splitext p) = [] \<or> snd (splitext p) = drop (nat (rfind p CHR ''.'')) p"
  using splitext_loop_snd[of p "rfind p CHR ''.''" "rfind p CHR ''/'' + 1"]
  by (auto simp: splitext_def Let_def)

lemma file_EXTENSION_no_dot: "CHR ''.'' \<notin> set filepath \<Longrightarrow> file_EXTENSION filepath = []"
  using rfind_lower[of filepath "CHR ''/''"]
  by (simp add: file_EXTENSION_def splitext_def rfind_absent Let_def)

lemma file_EXTENSION_bare_dot: "file_EXTENSION (stem @ ''.'') = []"
  using splitext_snd[of "stem @ ''.''"]
  by (auto simp: file_EXTENSION_def rfind_last)

lemma py_in_Nil: "py_in [] s"
  by (cases s) auto

lemma get_ogr_driver_no_drivers:
  "ogr_drivers w = [] \<Longrightarrow>
   get_ogr_driver filepath w =
     (Inl (InvalidInputTypeError (no_driver_msg (file_EXTENSION filepath))), w)"
  by (simp add: get_ogr_driver_find)

text \<open>
  C9.  When the path's extension is empty (no dot in the path, or a bare dot at its end:
  \<open>file_EXTENSION_no_dot\<close>, \<open>file_EXTENSION_bare_dot\<close>), the substring test of the loop
  succeeds on the first driver whatever its alternate-extensions item is, so the resolver
  returns the first driver of the registry and does not raise.
\<close>

theorem C9_empty_extension_first_driver:
  assumes "file_EXTENSION filepath = []" and "ogr_drivers w = drv # rest"
  shows "py_in (file_EXTENSION filepath) (or_empty (DMD_EXTENSIONS drv))
         \<and> get_ogr_driver filepath w = (Inr drv, w)"
proof -
  have "spec_matches [] drv" by (simp add: spec_matches_def)
  with assms show ?thesis by (simp add: get_ogr_driver_find py_in_Nil)
qed

theorem C9_empty_extension_first_driver_witness:
  "file_EXTENSION ''out'' = []
   \<and> ogr_drivers example_world' = Memory_driver # [Shapefile_driver, GeoJSON_driver]
   \<and> py_in (file_EXTENSION ''out'') (or_empty (DMD_EXTENSIONS Memory_driver))
   \<and> get_ogr_driver ''out'' example_world' = (Inr Memory_driver, example_world')"
proof -
  have e: "file_EXTENSION ''out'' = []" by code_simp
  have d: "ogr_drivers example_world' = Memory_driver # [Shapefile_driver, GeoJSON_driver]"
    by (simp add: example_world'_def)
  from e d C9_empty_extension_first_driver[OF e d] show ?thesis by simp
qed

section \<open>The loop body and the run, case by case\<close>

lemma process_record_shape_fails:
  "shape ext (geometry rec) = Inl e \<Longrightarrow> process_record ext density rec w = (Inl e, w)"
  by (simp add: process_record_def)

lemma process_record_call_fails:
  "shape ext (geometry rec) = Inr g \<Longrightarrow>
   call_Centerline ext g density (properties rec) = Inl err \<Longrightarrow>
   process_record ext density rec w =
     (if caught err then (Inr (), w\<lparr>warnings := warnings w @ [err]\<rparr>) else (Inl err, w))"
  by (simp add: process_record_def)

lemma process_record_call_returns:
  "shape ext (geometry rec) = Inr g \<Longrightarrow>
   call_Centerline ext g density (properties rec) = Inr ob \<Longrightarrow>
   process_record ext density rec w =
     (case fiona_write ext (centerline_dict ob (properties rec)) of
        Some e \<Rightarrow> (Inl e, w)
      | None \<Rightarrow> (Inr (), w\<lparr>written := written w @ [centerline_dict ob (properties rec)]\<rparr>))"
  by (simp add: process_record_def Let_def)

lemma process_record_cases [consumes 1, case_names abort skip wrote]:
  assumes "process_record ext density rec w = (r, w')"
  obtains e where "r = Inl e" "w' = w"
    | err where "r = Inr ()" "output_of ext density rec = None" "caught err"
                "w' = w\<lparr>warnings := warnings w @ [err]\<rparr>"
    | out where "r = Inr ()" "output_of ext density rec = Some out"
                "w' = w\<lparr>written := written w @ [out]\<rparr>"
proof (cases "shape ext (geometry rec)")
  case (Inl e)
  with assms have "r = Inl e" "w' = w" by (simp_all add: process_record_shape_fails)
  then show ?thesis by (rule that(1))
next
  case shape_ok: (Inr g)
  show ?thesis
  proof (cases "call_Centerline ext g density (properties rec)")
    case (Inl err)
    have out: "output_of ext density rec = None"
      using shape_ok Inl by (simp add: output_of_def)
    show ?thesis
    proof (cases "caught err")
      case True
      with assms shape_ok Inl have "r = Inr ()" "w' = w\<lparr>warnings := warnings w @ [err]\<rparr>"
        by (simp_all add: process_record_call_fails)
      with out True show ?thesis by (intro that(2))
    next
      case False
      with assms shape_ok Inl have "r = Inl err" "w' = w"
        by (simp_all add: process_record_call_fails)
      then show ?thesis by (rule that(1))
    qed
  next
    case (Inr ob)
    have out: "output_of ext density rec = Some (centerline_dict ob (properties rec))"
      using shape_ok Inr by (simp add: output_of_def)
    show ?thesis
    proof (cases "fiona_write ext (centerline_dict ob (properties rec))")
      case None
      with assms shape_ok Inr have "r = Inr ()"
        "w' = w\<lparr>written := written w @ [centerline_dict ob (properties rec)]\<rparr>"
        by (simp_all add: process_record_call_returns)
      with out show ?thesis by (intro that(3))
    next
      case (Some e)
      with assms shape_ok Inr have "r = Inl e" "w' = w"
        by (simp_all add: process_record_call_returns)
      then show ?thesis by (rule that(1))
    qed
  qed
qed

lemma process_record_frame:
  assumes "process_record ext density rec w = (r, w')"
  shows "open_calls w' = open_calls w \<and> ogr_drivers w' = ogr_drivers w"
  using assms by (cases rule: process_record_cases) simp_all

lemma process_record_written:
  assumes "process_record ext density rec w = (Inr u, w')"
  shows "written w' = written w @ List.map_filter (output_of ext density) [rec]"
  using assms by (cases rule: process_record_cases) (simp_all add: List.map_filter_simps)

lemma process_record_abort:
  assumes "process_record ext density rec w = (Inl e, w')"
  shows "w' = w"
  using assms by (cases rule: process_record_cases) simp_all

lemma records_loop_frame:
  "records_loop ext density rs w = (r, w') \<Longrightarrow>
   open_calls w' = open_calls w \<and> ogr_drivers w' = ogr_drivers w"
proof (induction rs arbitrary: w)
  case Nil
  then show ?case by simp
next
  case (Cons rec rest)
  obtain r1 w1 where step: "process_record ext density rec w = (r1, w1)"
    by (cases "process_record ext density rec w")
  note fr = process_record_frame[OF step]
  show ?case
  proof (cases r1)
    case (Inl e)
    with Cons.prems step fr show ?thesis by simp
  next
    case (Inr u)
    with Cons.prems step have "records_loop ext density rest w1 = (r, w')" by simp
    from Cons.IH[OF this] fr show ?thesis by simp
  qed
qed

lemma records_loop_written:
  "records_loop ext density rs w = (r, w') \<Longrightarrow>
   \<exists>k \<le> length rs. written w' = written w @ List.map_filter (output_of ext density) (take k rs)
        \<and> (r = Inr () \<longrightarrow> k = length rs)"
proof (induction rs arbitrary: w)
  case Nil
  then show ?case by (auto simp: List.map_filter_simps)
next
  case (Cons rec rest)
  obtain r1 w1 where step: "process_record ext density rec w = (r1, w1)"
    by (cases "process_record ext density rec w")
  show ?case
  proof (cases r1)
    case (Inl e)
    with step have aborted: "process_record ext density rec w = (Inl e, w1)" by simp
    have "w1 = w" by (rule process_record_abort[OF aborted])
    with Cons.prems aborted have "r = Inl e" "w' = w" by simp_all
    then show ?thesis
      by (intro exI[of _ 0]) (simp add: List.map_filter_simps)
  next
    case (Inr u)
    with Cons.prems step have rest: "records_loop ext density rest w1 = (r, w')" by simp
    from Cons.IH[OF rest] obtain k where k: "k \<le> length rest"
      "written w' = written w1 @ List.map_filter (output_of ext density) (take k rest)"
      "r = Inr () \<longrightarrow> k = length rest" by blast
    from step Inr have went_on: "process_record ext density rec w = (Inr u, w1)" by simp
    have w1: "written w1 = written w @ List.map_filter (output_of ext density) [rec]"
      by (rule process_record_written[OF went_on])
    have split: "List.map_filter (output_of ext density) (take (Suc k) (rec # rest)) =
        List.map_filter (output_of ext density) [rec]
          @ List.map_filter (output_of ext density) (take k rest)"
      by (simp add: List.map_filter_simps split: option.split)
    have "written w' = written w @ List.map_filter (output_of ext density) (take (Suc k) (rec # rest))"
      by (simp only: k(2) w1 split append_assoc)
    with k(1,3) show ?thesis
      by (intro exI[of _ "Suc k"]) simp
  qed
qed

lemma dict_update_single: "dict_update d [(k, v)] = AList.update k v d"
  by (simp add: dict_update_def)


lemma create_centerlines_no_driver:
  "fiona_open_r ext src = Inr source_file \<Longrightarrow> get_ogr_driver dst w = (Inl e, w1) \<Longrightarrow>
   create_centerlines ext src dst density w = (Inl e, w1)"
  by (simp add: create_centerlines_def)

lemma create_centerlines_driver:
  "fiona_open_r ext src = Inr source_file \<Longrightarrow> get_ogr_driver dst w = (Inr drv, w1) \<Longrightarrow>
   create_centerlines ext src dst density w =
     (case fiona_open_w ext (the_open_call dst drv source_file) of
        Some e \<Rightarrow> (Inl e, w1\<lparr>open_calls := open_calls w1 @ [the_open_call dst drv source_file]\<rparr>)
      | None \<Rightarrow> records_loop ext density (records source_file)
                 (w1\<lparr>open_calls := open_calls w1 @ [the_open_call dst drv source_file]\<rparr>))"
  unfolding create_centerlines_def the_open_call_def
  by (simp add: dict_update_single Let_def)

lemma create_centerlines_open_call:
  assumes "fiona_open_r ext src = Inr source_file"
      and "get_ogr_driver dst w = (Inr drv, w1)"
      and "create_centerlines ext src dst density w = (r, w')"
  shows "open_calls w' = open_calls w @ [the_open_call dst drv source_file]"
proof -
  from assms(2) have w1: "w1 = w" by (auto simp: get_ogr_driver_def Let_def)
  let ?w2 = "w\<lparr>open_calls := open_calls w @ [the_open_call dst drv source_file]\<rparr>"
  show ?thesis
  proof (cases "fiona_open_w ext (the_open_call dst drv source_file)")
    case (Some e)
    with assms(3) have "w' = ?w2"
      unfolding create_centerlines_driver[OF assms(1,2)] w1 by simp
    then show ?thesis by simp
  next
    case None
    with assms(3) have "records_loop ext density (records source_file) ?w2 = (r, w')"
      unfolding create_centerlines_driver[OF assms(1,2)] w1 by simp
    from records_loop_frame[OF this] show ?thesis by simp
  qed
qed

lemma example_opens: "fiona_open_r example_ext ''in.shp'' = Inr example_source"
  by (simp add: example_ext_def)

lemma example_resolves:
  "get_ogr_driver ''out.geojson'' example_world = (Inr GeoJSON_driver, example_world)"
  by code_simp

lemma example_run:
  "create_centerlines example_ext ''in.shp'' ''out.geojson'' 1 example_world = (Inr (), example_done)"
  by code_simp

section \<open>Claims about the conversion\<close>



text \<open>
  C7.  When the source opens and the resolver returns a driver, the run makes exactly one
  call to open a dataset for writing, with the destination path, the driver's name, the
  derived schema, and the source's coordinate reference system and encoding unchanged.
\<close>

theorem C7_destination_opened_once:
  assumes "fiona_open_r ext src = Inr source_file"
      and "get_ogr_driver dst w = (Inr drv, w1)"
      and "create_centerlines ext src dst density w = (r, w')"
  shows "open_calls w' = open_calls w @
           [\<lparr> dst_path = dst, dst_mode = ''w'', dst_driver = GetName drv,
              dst_schema = dict_update (schema source_file)
                             [(''geometry'', GeometryType ''MultiLineString'')],
              dst_crs = crs source_file, dst_encoding = encoding source_file \<rparr>]"
  using create_centerlines_open_call[OF assms]
  by (simp add: the_open_call_def dict_update_single)

theorem C7_destination_opened_once_witness:
  "fiona_open_r example_ext ''in.shp'' = Inr example_source
   \<and> get_ogr_driver ''out.geojson'' example_world = (Inr GeoJSON_driver, example_world)
   \<and> create_centerlines example_ext ''in.shp'' ''out.geojson'' 1 example_world
       = (Inr (), example_done)
   \<and> open_calls example_done = open_calls example_world @
           [\<lparr> dst_path = ''out.geojson'', dst_mode = ''w'', dst_driver = GetName GeoJSON_driver,
              dst_schema = dict_update (schema example_source)
                             [(''geometry'', GeometryType ''MultiLineString'')],
              dst_crs = crs example_source, dst_encoding = encoding example_source \<rparr>]"
  by (intro conjI example_opens example_resolves example_run
        C7_destination_opened_once[OF example_opens example_resolves example_run])

lemma update_other_slots:
  "filter (\<lambda>(k', v'). k' \<noteq> k) (AList.update k v al) = filter (\<lambda>(k', v'). k' \<noteq> k) al"
  by (induction al) auto

text \<open>
  C4.  The schema passed to that call has the geometry slot set to \<open>MultiLineString\<close>;
  every other slot (in particular the ordered list of field definitions) looks up as in the
  source schema, the other slots keep their order, and when the source schema has a
  geometry slot the slot names are the same list.
\<close>

theorem C4_schema_geometry_slot_only:
  assumes "fiona_open_r ext src = Inr source_file"
      and "get_ogr_driver dst w = (Inr drv, w1)"
      and "create_centerlines ext src dst density w = (r, w')"
  shows "\<exists>call. open_calls w' = open_calls w @ [call]
           \<and> map_of (dst_schema call) ''geometry'' = Some (GeometryType ''MultiLineString'')
           \<and> (\<forall>k. k \<noteq> ''geometry'' \<longrightarrow>
                 map_of (dst_schema call) k = map_of (schema source_file) k)
           \<and> filter (\<lambda>(k, v). k \<noteq> ''geometry'') (dst_schema call)
               = filter (\<lambda>(k, v). k \<noteq> ''geometry'') (schema source_file)
           \<and> (''geometry'' \<in> fst ` set (schema source_file) \<longrightarrow>
                 map fst (dst_schema call) = map fst (schema source_file))"
proof -
  let ?call = "the_open_call dst drv source_file"
  let ?out = "AList.update ''geometry'' (GeometryType ''MultiLineString'') (schema source_file)"
  have sch: "dst_schema ?call = ?out" by (simp add: the_open_call_def)
  have opened: "open_calls w' = open_calls w @ [?call]"
    using assms by (rule create_centerlines_open_call)
  have geom: "map_of ?out ''geometry'' = Some (GeometryType ''MultiLineString'')"
    by (simp add: update_conv')
  have others: "\<forall>k. k \<noteq> ''geometry'' \<longrightarrow> map_of ?out k = map_of (schema source_file) k"
    by (simp add: update_conv')
  have order: "filter (\<lambda>(k, v). k \<noteq> ''geometry'') ?out
               = filter (\<lambda>(k, v). k \<noteq> ''geometry'') (schema source_file)"
    by (rule update_other_slots)
  have slots: "''geometry'' \<in> fst ` set (schema source_file) \<longrightarrow>
                 map fst ?out = map fst (schema source_file)"
    by (simp add: update_keys)
  from opened geom others order slots show ?thesis
    unfolding sch[symmetric] by blast
qed

theorem C4_schema_geometry_slot_only_witness:
  "\<exists>call. open_calls example_done = open_calls example_world @ [call]
      \<and> map_of (dst_schema call) ''geometry'' = Some (GeometryType ''MultiLineString'')
      \<and> map_of (dst_schema call) ''properties'' = map_of (schema example_source) ''properties''
      \<and> filter (\<lambda>(k, v). k \<noteq> ''geometry'') (dst_schema call)
          = filter (\<lambda>(k, v). k \<noteq> ''geometry'') (schema example_source)
      \<and> map fst (dst_schema call) = map fst (schema example_source)"
proof -
  from C4_schema_geometry_slot_only[OF example_opens example_resolves example_run]
  obtain call where
    opened: "open_calls example_done = open_calls example_world @ [call]" and
    geom: "map_of (dst_schema call) ''geometry'' = Some (GeometryType ''MultiLineString'')" and
    others: "\<forall>k. k \<noteq> ''geometry'' \<longrightarrow>
                 map_of (dst_schema call) k = map_of (schema example_source) k" and
    order: "filter (\<lambda>(k, v). k \<noteq> ''geometry'') (dst_schema call)
          = filter (\<lambda>(k, v). k \<noteq> ''geometry'') (schema example_source)" and
    slots: "''geometry'' \<in> fst ` set (schema example_source) \<longrightarrow>
                 map fst (dst_schema call) = map fst (schema example_source)"
    by (elim exE conjE)
  have other: "''properties'' \<noteq> ''geometry''" by simp
  have has: "''geometry'' \<in> fst ` set (schema example_source)"
    by (simp add: example_source_def)
  note fields = others[rule_format, OF other]
  note names = slots[rule_format, OF has]
  show ?thesis by (intro exI[of _ call] conjI opened geom fields order names)
qed

lemma map_of_filter_keys:
  "map_of (filter (\<lambda>(k, v). P k) xs) = map_of xs |` {k. P k}"
  by (induction xs) (auto simp: restrict_map_def fun_eq_iff)

text \<open>
  C2.  For a feature whose geometry decodes, whose constructor call returns an object and
  whose record is accepted by the destination, the loop body writes one record; the
  key/value pairs of its properties are exactly the pairs of the object's attributes whose
  key is a key of the feature's properties, so its keys are the intersection of the two
  key sets and it looks up as the object's attributes restricted to the feature's keys.
\<close>

theorem C2_properties_intersection:
  assumes "shape ext (geometry rec) = Inr input_geom"
      and "call_Centerline ext input_geom density (properties rec) = Inr ob"
      and "fiona_write ext (centerline_dict ob (properties rec)) = None"
  shows "process_record ext density rec w
           = (Inr (), w\<lparr>written := written w @ [centerline_dict ob (properties rec)]\<rparr>)
       \<and> set (properties (centerline_dict ob (properties rec))) =
           {(k, v). (k, v) \<in> set (obj_dict ob) \<and> k \<in> fst ` set (properties rec)}
       \<and> fst ` set (properties (centerline_dict ob (properties rec)))
           = fst ` set (obj_dict ob) \<inter> fst ` set (properties rec)
       \<and> map_of (properties (centerline_dict ob (properties rec)))
           = map_of (obj_dict ob) |` (fst ` set (properties rec))"
proof -
  let ?out = "centerline_dict ob (properties rec)"
  have run: "process_record ext density rec w = (Inr (), w\<lparr>written := written w @ [?out]\<rparr>)"
    using assms by (simp add: process_record_call_returns)
  have props: "properties ?out = filter (\<lambda>(k, v). k \<in> fst ` set (properties rec)) (obj_dict ob)"
    by (simp add: centerline_dict_def)
  have pairs: "set (properties ?out) =
               {(k, v). (k, v) \<in> set (obj_dict ob) \<and> k \<in> fst ` set (properties rec)}"
    unfolding props by auto
  have keys: "fst ` set (properties ?out) = fst ` set (obj_dict ob) \<inter> fst ` set (properties rec)"
    unfolding props by force
  have look: "map_of (properties ?out) = map_of (obj_dict ob) |` (fst ` set (properties rec))"
    unfolding props using map_of_filter_keys[of "\<lambda>k. k \<in> fst ` set (properties rec)" "obj_dict ob"]
    by simp
  from run pairs keys look show ?thesis by (intro conjI)
qed

theorem C2_properties_intersection_witness:
  "shape example_ext (geometry example_record) = Inr ''Polygon A''
   \<and> call_Centerline example_ext ''Polygon A'' 1 (properties example_record) = Inr example_obj
   \<and> fiona_write example_ext (centerline_dict example_obj (properties example_record)) = None
   \<and> process_record example_ext 1 example_record example_world
       = (Inr (), example_world\<lparr>written := written example_world @
            [\<lparr> geometry = ''MultiLineString of Polygon A'',
               properties = [(''id'', 1), (''name'', 10)] \<rparr>]\<rparr>)"
proof -
  have h1: "shape example_ext (geometry example_record) = Inr ''Polygon A''"
    by (simp add: example_ext_def example_record_def)
  have h2: "call_Centerline example_ext ''Polygon A'' 1 (properties example_record) = Inr example_obj"
    by code_simp
  have h3: "fiona_write example_ext (centerline_dict example_obj (properties example_record)) = None"
    by (simp add: example_ext_def)
  have out: "centerline_dict example_obj (properties example_record)
      = \<lparr> geometry = ''MultiLineString of Polygon A'', properties = [(''id'', 1), (''name'', 10)] \<rparr>"
    by code_simp
  from C2_properties_intersection[OF h1 h2 h3, of example_world]
  have "process_record example_ext 1 example_record example_world
       = (Inr (), example_world\<lparr>written := written example_world @
            [centerline_dict example_obj (properties example_record)]\<rparr>)"
    by (rule conjunct1)
  then have "process_record example_ext 1 example_record example_world
       = (Inr (), example_world\<lparr>written := written example_world @
            [\<lparr> geometry = ''MultiLineString of Polygon A'',
               properties = [(''id'', 1), (''name'', 10)] \<rparr>]\<rparr>)"
    by (simp only: out)
  with h1 h2 h3 show ?thesis by (intro conjI)
qed

text \<open>
  C3.  When the constructor call for a feature raises \<open>InvalidInputTypeError\<close> or
  \<open>TooFewRidgesError\<close>, the loop body only appends the error to the warnings, writes
  nothing, and the loop goes on with the features that follow: the outcome of the loop is
  the outcome on the remaining features.
\<close>

theorem C3_caught_errors_skip_feature:
  assumes "shape ext (geometry rec) = Inr input_geom"
      and "call_Centerline ext input_geom density (properties rec) = Inl err"
      and "err = InvalidInputTypeError m \<or> err = TooFewRidgesError m"
  shows "process_record ext density rec w = (Inr (), w\<lparr>warnings := warnings w @ [err]\<rparr>)
       \<and> written (w\<lparr>warnings := warnings w @ [err]\<rparr>) = written w
       \<and> records_loop ext density (rec # rest) w
           = records_loop ext density rest (w\<lparr>warnings := warnings w @ [err]\<rparr>)"
proof -
  from assms(3) have "caught err" by auto
  with assms(1,2) have step:
    "process_record ext density rec w = (Inr (), w\<lparr>warnings := warnings w @ [err]\<rparr>)"
    by (simp add: process_record_call_fails)
  then show ?thesis by simp
qed

theorem C3_caught_errors_skip_feature_witness:
  "shape example_ext (geometry example_point) = Inr ''Point B''
   \<and> call_Centerline example_ext ''Point B'' 1 (properties example_point)
       = Inl (InvalidInputTypeError ''Input geometry must be a Polygon or MultiPolygon'')
   \<and> records_loop example_ext 1 [example_point, example_record] example_world
       = records_loop example_ext 1 [example_record]
           (example_world\<lparr>warnings := warnings example_world @
              [InvalidInputTypeError ''Input geometry must be a Polygon or MultiPolygon'']\<rparr>)"
proof -
  let ?m = "''Input geometry must be a Polygon or MultiPolygon''"
  have h1: "shape example_ext (geometry example_point) = Inr ''Point B''"
    by (simp add: example_ext_def example_point_def)
  have h2: "call_Centerline example_ext ''Point B'' 1 (properties example_point)
       = Inl (InvalidInputTypeError ?m)"
    by code_simp
  have h3: "InvalidInputTypeError ?m = InvalidInputTypeError ?m
            \<or> InvalidInputTypeError ?m = TooFewRidgesError ?m"
    by simp
  note c = C3_caught_errors_skip_feature[OF h1 h2 h3, of example_world "[example_record]"]
  from c have "records_loop example_ext 1 [example_point, example_record] example_world
       = records_loop example_ext 1 [example_record]
           (example_world\<lparr>warnings := warnings example_world @ [InvalidInputTypeError ?m]\<rparr>)"
    by (elim conjE)
  with h1 h2 show ?thesis by (intro conjI)
qed

lemma written_nothing:
  assumes "r = Inl e" and "written w' = written w"
  shows "\<exists>k \<le> length rs. written w' = written w @ List.map_filter f (take k rs)
           \<and> (r = Inr () \<longrightarrow> k = length rs)"
proof -
  have "0 \<le> length rs \<and> written w' = written w @ List.map_filter f (take 0 rs)
          \<and> (r = Inr () \<longrightarrow> 0 = length rs)"
    using assms by (simp add: List.map_filter_simps)
  then show ?thesis by (rule exI)
qed

text \<open>
  C6.  The records written by a run are the outputs of the features of a prefix of the
  source, in source order, features without an output left out and nothing else dropped or
  repeated; when the run ends without an error the prefix is the whole source.
\<close>

theorem C6_output_in_source_order:
  assumes "fiona_open_r ext src = Inr source_file"
      and "create_centerlines ext src dst density w = (r, w')"
  shows "\<exists>k \<le> length (records source_file).
           written w' = written w
              @ List.map_filter (output_of ext density) (take k (records source_file))
           \<and> (r = Inr () \<longrightarrow> k = length (records source_file))"
proof -
  obtain res w1 where resolved: "get_ogr_driver dst w = (res, w1)"
    by (cases "get_ogr_driver dst w")
  then have w1: "w1 = w" by (auto simp: get_ogr_driver_def Let_def)
  show ?thesis
  proof (cases res)
    case (Inl e)
    with resolved assms have "r = Inl e" "w' = w1"
      by (simp_all add: create_centerlines_no_driver)
    with w1 have "r = Inl e" "written w' = written w" by simp_all
    then show ?thesis by (rule written_nothing)
  next
    case (Inr drv)
    let ?call = "the_open_call dst drv source_file"
    let ?w2 = "w\<lparr>open_calls := open_calls w @ [?call]\<rparr>"
    from Inr resolved w1 have drv: "get_ogr_driver dst w = (Inr drv, w)" by simp
    note run = create_centerlines_driver[OF assms(1) drv, of density]
    show ?thesis
    proof (cases "fiona_open_w ext ?call")
      case (Some e)
      with assms(2) run have "r = Inl e" "w' = ?w2" by simp_all
      then have "r = Inl e" "written w' = written w" by simp_all
      then show ?thesis by (rule written_nothing)
    next
      case None
      with assms(2) run have "records_loop ext density (records source_file) ?w2 = (r, w')"
        by simp
      from records_loop_written[OF this] show ?thesis by simp
    qed
  qed
qed

theorem C6_output_in_source_order_witness:
  "written example_done = written example_world
     @ List.map_filter (output_of example_ext 1) (records example_source)"
proof -
  from C6_output_in_source_order[OF example_opens example_run]
  obtain k where
    prefix: "written example_done = written example_world
              @ List.map_filter (output_of example_ext 1) (take k (records example_source))" and
    whole: "Inr () = (Inr () :: error + unit) \<longrightarrow> k = length (records example_source)"
    by (elim exE conjE)
  from whole have "k = length (records example_source)" by simp
  with prefix show ?thesis by simp
qed

lemma example_written_in_order:
  "List.map_filter (output_of example_ext 1) (records example_source) = written example_done"
  by code_simp

lemma call_Centerline_collision_general:
  assumes "\<exists>k \<in> fst ` set attributes. explicit_keyword k"
  shows "\<exists>k. explicit_keyword k
             \<and> call_Centerline ext input_geom density attributes = Inl (TypeError k)"
proof -
  from assms have "\<exists>k \<in> set (map fst attributes). explicit_keyword k"
    by (simp only: set_map)
  then have "find explicit_keyword (map fst attributes) \<noteq> None"
    unfolding find_None_iff by blast
  then obtain k where k: "find explicit_keyword (map fst attributes) = Some k" by blast
  then have "explicit_keyword k" unfolding find_Some_iff by blast
  moreover from k have "call_Centerline ext input_geom density attributes = Inl (TypeError k)"
    by (simp add: call_Centerline_def)
  ultimately show ?thesis by blast
qed

lemma keyword_collision:
  assumes "''input_geom'' \<in> fst ` set attributes \<or> ''interpolation_dist'' \<in> fst ` set attributes"
  shows "\<exists>k \<in> fst ` set attributes. explicit_keyword k"
proof -
  have a: "explicit_keyword ''input_geom''" and b: "explicit_keyword ''interpolation_dist''"
    by (simp_all add: explicit_keyword_def)
  from assms show ?thesis
  proof
    assume "''input_geom'' \<in> fst ` set attributes"
    then show ?thesis using a by (rule bexI[rotated])
  next
    assume "''interpolation_dist'' \<in> fst ` set attributes"
    then show ?thesis using b by (rule bexI[rotated])
  qed
qed

text \<open>
  C10.  A feature whose properties have the key \<open>input_geom\<close> or \<open>interpolation_dist\<close>
  ends the loop with an error and an unchanged state, none of the features after it being
  processed; when its geometry decodes, the error is the \<open>TypeError\<close> of the call for one
  of these two keys, which the handler does not catch.
\<close>

theorem C10_keyword_collision_aborts:
  assumes "''input_geom'' \<in> fst ` set (properties rec)
           \<or> ''interpolation_dist'' \<in> fst ` set (properties rec)"
  shows "(\<exists>e. process_record ext density rec w = (Inl e, w)
              \<and> records_loop ext density (rec # rest) w = (Inl e, w))
       \<and> (\<forall>input_geom. shape ext (geometry rec) = Inr input_geom \<longrightarrow>
             (\<exists>k. (k = ''input_geom'' \<or> k = ''interpolation_dist'')
                 \<and> call_Centerline ext input_geom density (properties rec) = Inl (TypeError k)
                 \<and> \<not> caught (TypeError k)
                 \<and> records_loop ext density (rec # rest) w = (Inl (TypeError k), w)))"
proof (rule conjI)
  show "\<exists>e. process_record ext density rec w = (Inl e, w)
              \<and> records_loop ext density (rec # rest) w = (Inl e, w)"
  proof (cases "shape ext (geometry rec)")
    case (Inl e)
    then have step: "process_record ext density rec w = (Inl e, w)"
      by (rule process_record_shape_fails)
    then have "records_loop ext density (rec # rest) w = (Inl e, w)" by simp
    with step show ?thesis by (intro exI[of _ e] conjI)
  next
    case (Inr input_geom)
    from call_Centerline_collision_general[OF keyword_collision[OF assms], of ext input_geom density]
    obtain k where
      k: "call_Centerline ext input_geom density (properties rec) = Inl (TypeError k)"
      by blast
    from Inr k have step: "process_record ext density rec w = (Inl (TypeError k), w)"
      by (simp add: process_record_call_fails)
    then have "records_loop ext density (rec # rest) w = (Inl (TypeError k), w)" by simp
    with step show ?thesis by (intro exI[of _ "TypeError k"] conjI)
  qed
next
  show "\<forall>input_geom. shape ext (geometry rec) = Inr input_geom \<longrightarrow>
             (\<exists>k. (k = ''input_geom'' \<or> k = ''interpolation_dist'')
                 \<and> call_Centerline ext input_geom density (properties rec) = Inl (TypeError k)
                 \<and> \<not> caught (TypeError k)
                 \<and> records_loop ext density (rec # rest) w = (Inl (TypeError k), w))"
  proof (intro allI impI)
    fix input_geom
    assume ok: "shape ext (geometry rec) = Inr input_geom"
    from call_Centerline_collision_general[OF keyword_collision[OF assms], of ext input_geom density]
    obtain k where
      key: "explicit_keyword k" and
      call: "call_Centerline ext input_geom density (properties rec) = Inl (TypeError k)"
      by blast
    from key have k: "k = ''input_geom'' \<or> k = ''interpolation_dist''"
      by (simp only: explicit_keyword_def)
    from ok call have step: "process_record ext density rec w = (Inl (TypeError k), w)"
      by (simp add: process_record_call_fails)
    then have loop: "records_loop ext density (rec # rest) w = (Inl (TypeError k), w)" by simp
    have escapes: "\<not> caught (TypeError k)" by simp
    from k call escapes loop
    show "\<exists>k. (k = ''input_geom'' \<or> k = ''interpolation_dist'')
                 \<and> call_Centerline ext input_geom density (properties rec) = Inl (TypeError k)
                 \<and> \<not> caught (TypeError k)
                 \<and> records_loop ext density (rec # rest) w = (Inl (TypeError k), w)"
      by (intro exI[of _ k] conjI)
  qed
qed

theorem C10_keyword_collision_aborts_witness:
  "(''input_geom'' \<in> fst ` set (properties colliding_record)
      \<or> ''interpolation_dist'' \<in> fst ` set (properties colliding_record))
   \<and> shape example_ext (geometry colliding_record) = Inr ''Polygon D''
   \<and> (\<exists>k. (k = ''input_geom'' \<or> k = ''interpolation_dist'')
          \<and> call_Centerline example_ext ''Polygon D'' 1 (properties colliding_record)
              = Inl (TypeError k)
          \<and> \<not> caught (TypeError k)
          \<and> records_loop example_ext 1 (colliding_record # [example_record]) example_world
              = (Inl (TypeError k), example_world))"
proof -
  have h: "''input_geom'' \<in> fst ` set (properties colliding_record)
      \<or> ''interpolation_dist'' \<in> fst ` set (properties colliding_record)"
    by (simp add: colliding_record_def)
  have ok: "shape example_ext (geometry colliding_record) = Inr ''Polygon D''"
    by (simp add: example_ext_def colliding_record_def)
  from C10_keyword_collision_aborts[OF h, of example_ext 1 example_world "[example_record]"]
  have "\<forall>input_geom. shape example_ext (geometry colliding_record) = Inr input_geom \<longrightarrow>
             (\<exists>k. (k = ''input_geom'' \<or> k = ''interpolation_dist'')
                 \<and> call_Centerline example_ext input_geom 1 (properties colliding_record)
                     = Inl (TypeError k)
                 \<and> \<not> caught (TypeError k)
                 \<and> records_loop example_ext 1 (colliding_record # [example_record]) example_world
                     = (Inl (TypeError k), example_world))"
    by (rule conjunct2)
  then have "shape example_ext (geometry colliding_record) = Inr ''Polygon D'' \<longrightarrow>
             (\<exists>k. (k = ''input_geom'' \<or> k = ''interpolation_dist'')
                 \<and> call_Centerline example_ext ''Polygon D'' 1 (properties colliding_record)
                     = Inl (TypeError k)
                 \<and> \<not> caught (TypeError k)
                 \<and> records_loop example_ext 1 (colliding_record # [example_record]) example_world
                     = (Inl (TypeError k), example_world))"
    by (rule spec)
  from this ok have "\<exists>k. (k = ''input_geom'' \<or> k = ''interpolation_dist'')
                 \<and> call_Centerline example_ext ''Polygon D'' 1 (properties colliding_record)
                     = Inl (TypeError k)
                 \<and> \<not> caught (TypeError k)
                 \<and> records_loop example_ext 1 (colliding_record # [example_record]) example_world
                     = (Inl (TypeError k), example_world)"
    by (rule mp)
  with h ok show ?thesis by (intro conjI)
qed

end
